theory Spec2Isabelle
  imports Main
begin

section \<open>Python strings, dictionaries and logging\<close>

text \<open>
  A Python \<open>str\<close> is modelled as a \<open>string\<close>, one \<open>char\<close> per code point; code points
  above U+00FF are outside the model. \<open>isspace\<close> is the set of code points below 256
  that \<open>str.strip()\<close> removes: U+0009..U+000D, U+001C..U+0020, U+0085 and U+00A0.
\<close>

definition nl :: char where
  "nl = CHR 0x0A"

definition isspace :: "char \<Rightarrow> bool" where
  "isspace c =
     (let n = (of_char c :: nat)
      in (9 \<le> n \<and> n \<le> 13) \<or> (28 \<le> n \<and> n \<le> 32) \<or> n = 133 \<or> n = 160)"

text \<open>\<open>s.strip()\<close>: leading and trailing whitespace removed.\<close>

definition str_strip :: "string \<Rightarrow> string" where
  "str_strip s = rev (dropWhile isspace (rev (dropWhile isspace s)))"

text \<open>\<open>sep.join(parts)\<close>.\<close>

fun str_join :: "string \<Rightarrow> string list \<Rightarrow> string" where
  "str_join sep [] = []"
| "str_join sep [x] = x"
| "str_join sep (x # y # ys) = x @ sep @ str_join sep (y # ys)"

text \<open>\<open>str(n)\<close> for a length, as an f-string prints it.\<close>

function str_nat :: "nat \<Rightarrow> string" where
  "str_nat n =
     (if n < 10 then [''0123456789'' ! n]
      else str_nat (n div 10) @ [''0123456789'' ! (n mod 10)])"
  by pat_completeness auto
termination
  by (relation "measure id") auto

declare str_nat.simps [simp del]

text \<open>
  A \<open>Dict\<close> of strings whose truth value is tested (the date and time record) is an
  association list: it is true exactly when it has an entry. \<open>d.get(k, default)\<close>:
\<close>

type_synonym dict = "(string \<times> string) list"

definition dict_get :: "dict \<Rightarrow> string \<Rightarrow> string \<Rightarrow> string" where
  "dict_get d k dflt = (case map_of d k of None \<Rightarrow> dflt | Some v \<Rightarrow> v)"

text \<open>The records the module's \<open>logger\<close> receives, in order: level and message.\<close>

datatype log_level = DEBUG | INFO | WARNING | ERROR

type_synonym log_record = "log_level \<times> string"

section \<open>Conversation stages\<close>

datatype ConversationStage = STARTUP | MID_CONVERSATION | CLOSING | ACTIVE

fun stage_value :: "ConversationStage \<Rightarrow> string" where
  "stage_value STARTUP = ''startup''"
| "stage_value MID_CONVERSATION = ''mid_conversation''"
| "stage_value CLOSING = ''closing''"
| "stage_value ACTIVE = ''active''"

section \<open>The section catalog\<close>




record PromptManager =
  prompt_sections :: "string \<rightharpoonup> string"






section \<open>Assembling the system prompt\<close>

text \<open>The \<open>if\<close>/\<open>elif\<close> chain of \<open>get_system_prompt\<close>: the keys a stage appends.\<close>

definition stage_sections :: "string \<Rightarrow> string list" where
  "stage_sections stage =
     (if stage = stage_value STARTUP \<or> stage = ''startup'' then
        [''startup_instructions'', ''conversation_flow'', ''tone_style'', ''tool_usage'']
      else if stage = stage_value MID_CONVERSATION \<or> stage = ''mid_conversation'' then
        [''mid_conversation'', ''tone_style'', ''tool_usage'']
      else if stage = stage_value CLOSING \<or> stage = ''closing'' then
        [''closing'', ''tone_style'']
      else if stage = stage_value ACTIVE \<or> stage = ''active'' then
        [''mid_conversation'', ''tone_style'', ''tool_usage'']
      else [])"

text \<open>
  The working list \<open>sections_to_include\<close> after the override and the exclusion. Both
  tests are Python truth tests on an optional list: \<open>None\<close> and \<open>[]\<close> are false.
\<close>

definition truthy :: "'a list option \<Rightarrow> bool" where
  "truthy l = (case l of None \<Rightarrow> False | Some xs \<Rightarrow> xs \<noteq> [])"

definition sections_to_include ::
  "string \<Rightarrow> string list option \<Rightarrow> string list option \<Rightarrow> string list" where
  "sections_to_include stage include_sections exclude_sections =
     (let s0 = [''core_identity'', ''language_rules''] @ stage_sections stage;
          s1 = (case include_sections of
                  Some inc \<Rightarrow> if truthy include_sections then inc else s0
                | None \<Rightarrow> s0);
          s2 = (case exclude_sections of
                  Some exc \<Rightarrow> if truthy exclude_sections then [s \<leftarrow> s1. s \<notin> set exc] else s1
                | None \<Rightarrow> s1)
      in s2)"

text \<open>
  The \<open>for section_name in sections_to_include\<close> loop, on the pair of \<open>prompt_parts\<close>
  and the log: a known key with text that is not blank appends the text, a known key
  with blank text appends nothing, an unknown key logs a warning.
\<close>

fun collect_sections ::
  "(string \<rightharpoonup> string) \<Rightarrow> string list \<Rightarrow> string list \<times> log_record list
     \<Rightarrow> string list \<times> log_record list" where
  "collect_sections ps [] acc = acc"
| "collect_sections ps (section_name # rest) (prompt_parts, logs) =
     collect_sections ps rest
       (case ps section_name of
          Some section_content \<Rightarrow>
            (if str_strip section_content \<noteq> [] then prompt_parts @ [section_content]
             else prompt_parts, logs)
        | None \<Rightarrow>
            (prompt_parts, logs @ [(WARNING, ''Unknown prompt section: '' @ section_name)]))"

text \<open>\<open>_format_datetime_context\<close>: the f-string, line by line.\<close>

definition format_datetime_context :: "dict \<Rightarrow> string" where
  "format_datetime_context datetime_info =
     [nl] @
     ''## CURRENT DATE AND TIME INFORMATION'' @ [nl] @
     [nl] @
     ''**IMPORTANT: Use this information when answering questions about dates/times.**'' @ [nl] @
     [nl] @
     ''- **Current Date**: '' @ dict_get datetime_info ''readable_date'' ''N/A'' @
       '' ('' @ dict_get datetime_info ''day_of_week'' ''N/A'' @ '')'' @ [nl] @
     ''- **Current Date (YYYY-MM-DD format)**: '' @
       dict_get datetime_info ''current_date'' ''N/A'' @ [nl] @
     ''- **Current Time**: '' @ dict_get datetime_info ''current_time'' ''N/A'' @
       '' ('' @ dict_get datetime_info ''timezone'' ''N/A'' @ '')'' @ [nl] @
     ''- **Tomorrow's Date**: '' @ dict_get datetime_info ''tomorrow_readable'' ''N/A'' @
       '' ('' @ dict_get datetime_info ''tomorrow_day'' ''N/A'' @ '')'' @ [nl] @
     ''- **Tomorrow's Date (YYYY-MM-DD format)**: '' @
       dict_get datetime_info ''tomorrow_date'' ''N/A'' @ [nl] @
     ''- Current timezone is '' @ dict_get datetime_info ''timezone'' ''N/A'' @ [nl]"

text \<open>
  \<open>prompt_parts\<close> and the warnings when \<open>get_system_prompt\<close> reaches its join: the
  section loop, then the date and time block, then the guardrails text.
\<close>

definition build_prompt_parts ::
  "PromptManager \<Rightarrow> string \<Rightarrow> dict option \<Rightarrow> string \<Rightarrow> string list option
     \<Rightarrow> string list option \<Rightarrow> string list \<times> log_record list" where
  "build_prompt_parts self stage datetime_info guardrails_context include_sections
       exclude_sections =
     (let (parts1, logs) =
            collect_sections (prompt_sections self)
              (sections_to_include stage include_sections exclude_sections) ([], []);
          parts2 = (case datetime_info of
                      Some d \<Rightarrow>
                        if truthy datetime_info then parts1 @ [format_datetime_context d]
                        else parts1
                    | None \<Rightarrow> parts1);
          parts3 = (if guardrails_context \<noteq> [] then parts2 @ [guardrails_context]
                    else parts2)
      in (parts3, logs))"

text \<open>\<open>get_system_prompt\<close>: the returned string and the log records it emitted.\<close>

definition get_system_prompt ::
  "PromptManager \<Rightarrow> string \<Rightarrow> dict option \<Rightarrow> string \<Rightarrow> string list option
     \<Rightarrow> string list option \<Rightarrow> string \<times> log_record list" where
  "get_system_prompt self stage datetime_info guardrails_context include_sections
       exclude_sections =
     (let (prompt_parts, logs) =
            build_prompt_parts self stage datetime_info guardrails_context include_sections
              exclude_sections;
          system_prompt = str_join [nl, nl] prompt_parts
      in (system_prompt,
          logs @
          [(DEBUG,
            ''Built system prompt for stage '' @ [CHR 0x27] @ stage @ [CHR 0x27] @
            '' with '' @
            str_nat (length (sections_to_include stage include_sections exclude_sections)) @
            '' sections, total length: '' @ str_nat (length system_prompt) @ '' chars'')]))"

section \<open>The compact prompt\<close>

text \<open>
  The loop of \<open>get_compact_prompt\<close>: as the one above, without the \<open>else\<close> branch, so
  an unknown key is passed over silently.
\<close>

fun collect_compact :: "(string \<rightharpoonup> string) \<Rightarrow> string list \<Rightarrow> string list \<Rightarrow> string list" where
  "collect_compact ps [] prompt_parts = prompt_parts"
| "collect_compact ps (section_name # rest) prompt_parts =
     collect_compact ps rest
       (case ps section_name of
          Some section_content \<Rightarrow>
            (if str_strip section_content \<noteq> [] then prompt_parts @ [section_content]
             else prompt_parts)
        | None \<Rightarrow> prompt_parts)"

definition compact_sections :: "string list" where
  "compact_sections = [''core_identity'', ''language_rules'', ''mid_conversation'']"

definition get_compact_prompt :: "PromptManager \<Rightarrow> dict option \<Rightarrow> string" where
  "get_compact_prompt self context =
     str_join [nl, nl] (collect_compact (prompt_sections self) compact_sections [])"

section \<open>Updating a client's system instruction\<close>








section \<open>Sample values\<close>


definition sample_manager :: PromptManager where
  "sample_manager =
     \<lparr>prompt_sections =
        [''core_identity'' \<mapsto> ''I'',
         ''language_rules'' \<mapsto> ''L'',
         ''startup_instructions'' \<mapsto> ''S'',
         ''mid_conversation'' \<mapsto> ''M'',
         ''tool_usage'' \<mapsto> ''U'',
         ''closing'' \<mapsto> ''C'',
         ''faq_info'' \<mapsto> ''Q'',
         ''conversation_flow'' \<mapsto> ''F'',
         ''tone_style'' \<mapsto> '' '']\<rparr>"





section \<open>Blocks of an assembled prompt\<close>

text \<open>
  What the section loop leaves of a key list, written without the accumulator: the
  text a key contributes (none when the key is unknown or its text is blank), the
  blocks of a key list, and the warnings of a key list.
\<close>

definition kept_text :: "(string \<rightharpoonup> string) \<Rightarrow> string \<Rightarrow> string option" where
  "kept_text ps k =
     (case ps k of
        Some c \<Rightarrow> if str_strip c \<noteq> [] then Some c else None
      | None \<Rightarrow> None)"

definition section_blocks :: "(string \<rightharpoonup> string) \<Rightarrow> string list \<Rightarrow> string list" where
  "section_blocks ps ks = List.map_filter (kept_text ps) ks"

definition unknown_warnings :: "(string \<rightharpoonup> string) \<Rightarrow> string list \<Rightarrow> log_record list" where
  "unknown_warnings ps ks =
     map (\<lambda>k. (WARNING, ''Unknown prompt section: '' @ k)) [k \<leftarrow> ks. ps k = None]"

text \<open>The blocks the two \<open>if\<close> statements after the loop append.\<close>

definition datetime_blocks :: "dict option \<Rightarrow> string list" where
  "datetime_blocks datetime_info =
     (case datetime_info of
        Some d \<Rightarrow> if d \<noteq> [] then [format_datetime_context d] else []
      | None \<Rightarrow> [])"

definition guardrails_blocks :: "string \<Rightarrow> string list" where
  "guardrails_blocks g = (if g \<noteq> [] then [g] else [])"

section \<open>Lemmas on the loops and the working list\<close>

lemma section_blocks_Nil: "section_blocks ps [] = []"
  by (simp add: section_blocks_def map_filter_simps)

lemma section_blocks_Cons:
  "section_blocks ps (k # ks) =
     (case kept_text ps k of Some c \<Rightarrow> [c] | None \<Rightarrow> []) @ section_blocks ps ks"
  by (simp add: section_blocks_def map_filter_simps split: option.splits)

lemma unknown_warnings_Nil: "unknown_warnings ps [] = []"
  by (simp add: unknown_warnings_def)

lemma unknown_warnings_Cons:
  "unknown_warnings ps (k # ks) =
     (if ps k = None then [(WARNING, ''Unknown prompt section: '' @ k)] else [])
       @ unknown_warnings ps ks"
  by (simp add: unknown_warnings_def)

lemma collect_sections_eq:
  "collect_sections ps ks (parts, logs) =
     (parts @ section_blocks ps ks, logs @ unknown_warnings ps ks)"
proof (induction ks arbitrary: parts logs)
  case Nil
  show ?case by (simp add: section_blocks_Nil unknown_warnings_Nil)
next
  case (Cons k ks)
  show ?case
    by (cases "ps k")
       (simp_all add: Cons.IH section_blocks_Cons unknown_warnings_Cons kept_text_def)
qed

lemma collect_compact_eq:
  "collect_compact ps ks parts = parts @ section_blocks ps ks"
proof (induction ks arbitrary: parts)
  case Nil
  show ?case by (simp add: section_blocks_Nil)
next
  case (Cons k ks)
  show ?case
    by (cases "ps k") (simp_all add: Cons.IH section_blocks_Cons kept_text_def)
qed

lemma section_blocks_known:
  "section_blocks ps [k \<leftarrow> ks. ps k \<noteq> None] = section_blocks ps ks"
  by (induction ks) (auto simp: section_blocks_Nil section_blocks_Cons kept_text_def)

lemma section_blocks_blank:
  assumes "ps k = Some c" and "str_strip c = []"
  shows "section_blocks ps (removeAll k ks) = section_blocks ps ks"
  using assms
  by (induction ks) (auto simp: section_blocks_Nil section_blocks_Cons kept_text_def)

lemma section_blocks_not_blank:
  "b \<in> set (section_blocks ps ks) \<Longrightarrow> str_strip b \<noteq> []"
  by (induction ks)
     (auto simp: section_blocks_Nil section_blocks_Cons kept_text_def
           split: option.splits if_splits)

lemma warnings_of_unknown:
  "[r \<leftarrow> unknown_warnings ps ks. fst r = WARNING] = unknown_warnings ps ks"
  by (induction ks) (simp_all add: unknown_warnings_Nil unknown_warnings_Cons)

lemma str_join_length:
  "length (str_join sep xs) = sum_list (map length xs) + length sep * (length xs - 1)"
  by (induction sep xs rule: str_join.induct) simp_all

lemma sections_to_include_default:
  "sections_to_include stage None None =
     [''core_identity'', ''language_rules''] @ stage_sections stage"
  by (simp add: sections_to_include_def)

lemma sections_to_include_exclude:
  "sections_to_include stage inc (Some exc) =
     [s \<leftarrow> sections_to_include stage inc None. s \<notin> set exc]"
  by (simp add: sections_to_include_def truthy_def Let_def split: option.splits)

lemma sections_to_include_override:
  "inc \<noteq> [] \<Longrightarrow> sections_to_include stage (Some inc) None = inc"
  by (simp add: sections_to_include_def truthy_def)

lemma sections_to_include_empty:
  "sections_to_include stage (Some []) exc = sections_to_include stage None exc"
  by (simp add: sections_to_include_def truthy_def)

lemma build_prompt_parts_eq:
  "build_prompt_parts self stage dt g inc exc =
     (section_blocks (prompt_sections self) (sections_to_include stage inc exc)
        @ datetime_blocks dt @ guardrails_blocks g,
      unknown_warnings (prompt_sections self) (sections_to_include stage inc exc))"
  by (simp add: build_prompt_parts_def collect_sections_eq datetime_blocks_def
        guardrails_blocks_def truthy_def split: option.splits)

lemma get_system_prompt_fst:
  "fst (get_system_prompt self stage dt g inc exc) =
     str_join [nl, nl] (fst (build_prompt_parts self stage dt g inc exc))"
  by (simp add: get_system_prompt_def Let_def split: prod.splits)

lemma get_system_prompt_warnings:
  "[r \<leftarrow> snd (get_system_prompt self stage dt g inc exc). fst r = WARNING] =
     unknown_warnings (prompt_sections self) (sections_to_include stage inc exc)"
  by (simp add: get_system_prompt_def Let_def build_prompt_parts_eq warnings_of_unknown)

section \<open>The claims\<close>

text \<open>
  C1, as the specification states it: an explicitly supplied empty \<open>include_sections\<close>
  replaces the working list, so that no section block is produced. The code tests the
  truth value of the list, and an empty list is false: for stage \<open>closing\<close> the
  working list is the stage's own and three section blocks are produced.
\<close>

theorem C1_empty_include_counterexample:
  "sections_to_include ''closing'' (Some []) None =
     [''core_identity'', ''language_rules'', ''closing'', ''tone_style''] \<and>
   fst (build_prompt_parts sample_manager ''closing'' None [] (Some []) None) =
     [''I'', ''L'', ''C'']"
  by (simp add: build_prompt_parts_eq sections_to_include_empty sections_to_include_default
        stage_sections_def section_blocks_Nil section_blocks_Cons kept_text_def
        sample_manager_def datetime_blocks_def guardrails_blocks_def str_strip_def
        isspace_def)

text \<open>
  C1, amended: a non-empty \<open>include_sections\<close> replaces the whole working list, for
  every stage: the list is used as it is, in its order, the always-included keys are
  not added again, and the section blocks of the output are those of the list. An
  empty \<open>include_sections\<close> is treated as an absent one.
\<close>

theorem C1_include_override:
  "(inc \<noteq> [] \<longrightarrow>
      sections_to_include stage (Some inc) None = inc \<and>
      fst (build_prompt_parts self stage dt g (Some inc) None) =
        section_blocks (prompt_sections self) inc @ datetime_blocks dt @ guardrails_blocks g) \<and>
   sections_to_include stage (Some []) exc = sections_to_include stage None exc"
  by (simp add: build_prompt_parts_eq sections_to_include_override sections_to_include_empty)

theorem C1_include_override_witness:
  "sections_to_include ''startup'' (Some [''faq_info'']) None = [''faq_info''] \<and>
   fst (build_prompt_parts sample_manager ''startup'' None [] (Some [''faq_info'']) None) =
     [''Q'']"
  using C1_include_override [where inc = "[''faq_info'']" and stage = "''startup''"
      and self = sample_manager and dt = None and g = "[]"]
  by (simp add: section_blocks_Nil section_blocks_Cons kept_text_def sample_manager_def
        datetime_blocks_def guardrails_blocks_def str_strip_def isspace_def)



text \<open>
  C3, as the specification states it: a \<open>guardrails_context\<close> that is blank after
  trimming contributes no block. The code tests the string itself, not its trimmed
  form: a single space is appended as the last block.
\<close>

theorem C3_blank_guardrails_counterexample:
  "str_strip '' '' = [] \<and>
   fst (build_prompt_parts sample_manager ''closing'' None '' '' None None) =
     [''I'', ''L'', ''C'', '' '']"
  by (simp add: build_prompt_parts_eq sections_to_include_default
        stage_sections_def section_blocks_Nil section_blocks_Cons kept_text_def
        sample_manager_def datetime_blocks_def guardrails_blocks_def str_strip_def
        isspace_def)

text \<open>
  C3, amended: \<open>guardrails_context\<close> is appended as it is, as the last block, if and
  only if it is not the empty string; no trimming takes place, and the other blocks do
  not depend on it.
\<close>

theorem C3_guardrails_appended:
  "fst (build_prompt_parts self stage dt g inc exc) =
     fst (build_prompt_parts self stage dt [] inc exc) @ (if g \<noteq> [] then [g] else []) \<and>
   fst (get_system_prompt self stage dt g inc exc) =
     str_join [nl, nl]
       (fst (build_prompt_parts self stage dt [] inc exc) @ (if g \<noteq> [] then [g] else []))"
  by (simp add: get_system_prompt_fst build_prompt_parts_eq guardrails_blocks_def)

theorem C3_guardrails_appended_witness:
  "fst (build_prompt_parts sample_manager ''closing'' None ''G'' None None) =
     [''I'', ''L'', ''C'', ''G''] \<and>
   fst (build_prompt_parts sample_manager ''closing'' None [] None None) =
     [''I'', ''L'', ''C'']"
  using C3_guardrails_appended [where self = sample_manager and stage = "''closing''"
      and dt = None and g = "''G''" and inc = None and exc = None]
  by (simp add: build_prompt_parts_eq sections_to_include_default
        stage_sections_def section_blocks_Nil section_blocks_Cons kept_text_def
        sample_manager_def datetime_blocks_def guardrails_blocks_def str_strip_def
        isspace_def)




text \<open>
  C5: without \<open>include_sections\<close> (and with nothing excluded) the selected keys are
  \<open>core_identity\<close>, \<open>language_rules\<close> and then the keys of the stage, in the order of
  the table; a stage outside the four appends nothing. The function is total: it has
  no branch that raises.
\<close>

theorem C5_stage_table:
  "sections_to_include ''startup'' None None =
     [''core_identity'', ''language_rules'', ''startup_instructions'', ''conversation_flow'',
      ''tone_style'', ''tool_usage''] \<and>
   sections_to_include ''mid_conversation'' None None =
     [''core_identity'', ''language_rules'', ''mid_conversation'', ''tone_style'',
      ''tool_usage''] \<and>
   sections_to_include ''active'' None None =
     [''core_identity'', ''language_rules'', ''mid_conversation'', ''tone_style'',
      ''tool_usage''] \<and>
   sections_to_include ''closing'' None None =
     [''core_identity'', ''language_rules'', ''closing'', ''tone_style''] \<and>
   (stage \<notin> {''startup'', ''mid_conversation'', ''active'', ''closing''} \<longrightarrow>
      sections_to_include stage None None = [''core_identity'', ''language_rules'']) \<and>
   sections_to_include stage None (Some []) = sections_to_include stage None None"
  by (simp add: sections_to_include_default sections_to_include_exclude stage_sections_def)

theorem C5_stage_table_witness:
  "sections_to_include ''unknown_stage'' None None = [''core_identity'', ''language_rules''] \<and>
   sections_to_include ''closing'' None None =
     [''core_identity'', ''language_rules'', ''closing'', ''tone_style'']"
  using C5_stage_table [of "''unknown_stage''"] by simp

text \<open>
  C6: for every stage, \<open>include_sections\<close> and \<open>exclude_sections\<close>, the working list
  is the list before the exclusion with every occurrence of every excluded key
  removed, however the key entered it; no excluded key is selected, and the section
  blocks of the output are those of the remaining keys.
\<close>

theorem C6_exclusion:
  "set (sections_to_include stage inc (Some exc)) \<inter> set exc = {} \<and>
   sections_to_include stage inc (Some exc) =
     [s \<leftarrow> sections_to_include stage inc None. s \<notin> set exc] \<and>
   fst (build_prompt_parts self stage dt g inc (Some exc)) =
     section_blocks (prompt_sections self)
       [s \<leftarrow> sections_to_include stage inc None. s \<notin> set exc] @
     datetime_blocks dt @ guardrails_blocks g"
proof (intro conjI)
  show "set (sections_to_include stage inc (Some exc)) \<inter> set exc = {}"
    by (auto simp: sections_to_include_exclude)
  show "sections_to_include stage inc (Some exc) =
     [s \<leftarrow> sections_to_include stage inc None. s \<notin> set exc]"
    by (rule sections_to_include_exclude)
  show "fst (build_prompt_parts self stage dt g inc (Some exc)) =
     section_blocks (prompt_sections self)
       [s \<leftarrow> sections_to_include stage inc None. s \<notin> set exc] @
     datetime_blocks dt @ guardrails_blocks g"
    by (simp add: build_prompt_parts_eq sections_to_include_exclude)
qed

theorem C6_exclusion_witness:
  "sections_to_include ''closing'' None (Some [''core_identity'', ''closing'']) =
     [''language_rules'', ''tone_style''] \<and>
   sections_to_include ''closing'' (Some [''closing'', ''faq_info'', ''closing''])
       (Some [''closing'']) = [''faq_info''] \<and>
   fst (build_prompt_parts sample_manager ''closing'' None []
          (Some [''closing'', ''faq_info'', ''closing'']) (Some [''closing''])) = [''Q'']"
  using C6_exclusion [where stage = "''closing''" and inc = None
      and exc = "[''core_identity'', ''closing'']"]
    C6_exclusion [where stage = "''closing''"
      and inc = "Some [''closing'', ''faq_info'', ''closing'']" and exc = "[''closing'']"
      and self = sample_manager and dt = None and g = "[]"]
  by (simp add: sections_to_include_default sections_to_include_override
        stage_sections_def section_blocks_Nil section_blocks_Cons kept_text_def
        sample_manager_def datetime_blocks_def guardrails_blocks_def str_strip_def
        isspace_def)

text \<open>
  C7: a selected key that the catalog lacks is skipped: the blocks are those of the
  known keys alone, and the warnings logged are exactly one
  \<open>Unknown prompt section\<close> record for each occurrence of an unknown key, in order.
  The operation is total: for every input it returns a prompt and its log.
\<close>

theorem C7_unknown_keys_skipped:
  "fst (build_prompt_parts self stage dt g inc exc) =
     section_blocks (prompt_sections self)
       [k \<leftarrow> sections_to_include stage inc exc. prompt_sections self k \<noteq> None] @
     datetime_blocks dt @ guardrails_blocks g \<and>
   [r \<leftarrow> snd (get_system_prompt self stage dt g inc exc). fst r = WARNING] =
     map (\<lambda>k. (WARNING, ''Unknown prompt section: '' @ k))
       [k \<leftarrow> sections_to_include stage inc exc. prompt_sections self k = None] \<and>
   (\<exists>prompt logs. get_system_prompt self stage dt g inc exc = (prompt, logs) \<and>
      prompt = str_join [nl, nl] (fst (build_prompt_parts self stage dt g inc exc)))"
proof (intro conjI)
  show "fst (build_prompt_parts self stage dt g inc exc) =
     section_blocks (prompt_sections self)
       [k \<leftarrow> sections_to_include stage inc exc. prompt_sections self k \<noteq> None] @
     datetime_blocks dt @ guardrails_blocks g"
    unfolding build_prompt_parts_eq section_blocks_known by simp
  show "[r \<leftarrow> snd (get_system_prompt self stage dt g inc exc). fst r = WARNING] =
     map (\<lambda>k. (WARNING, ''Unknown prompt section: '' @ k))
       [k \<leftarrow> sections_to_include stage inc exc. prompt_sections self k = None]"
    by (simp add: get_system_prompt_warnings unknown_warnings_def)
  show "\<exists>prompt logs. get_system_prompt self stage dt g inc exc = (prompt, logs) \<and>
      prompt = str_join [nl, nl] (fst (build_prompt_parts self stage dt g inc exc))"
    using get_system_prompt_fst [of self stage dt g inc exc]
    by (cases "get_system_prompt self stage dt g inc exc") simp
qed

theorem C7_unknown_keys_skipped_witness:
  "fst (build_prompt_parts sample_manager ''closing'' None []
          (Some [''typo'', ''faq_info'', ''typo'']) None) = [''Q''] \<and>
   [r \<leftarrow> snd (get_system_prompt sample_manager ''closing'' None []
                 (Some [''typo'', ''faq_info'', ''typo'']) None). fst r = WARNING] =
     [(WARNING, ''Unknown prompt section: typo''), (WARNING, ''Unknown prompt section: typo'')]"
  using C7_unknown_keys_skipped [where self = sample_manager and stage = "''closing''"
      and dt = None and g = "[]" and inc = "Some [''typo'', ''faq_info'', ''typo'']"
      and exc = None]
  by (simp add: sections_to_include_override
        section_blocks_Nil section_blocks_Cons kept_text_def
        sample_manager_def datetime_blocks_def guardrails_blocks_def str_strip_def
        isspace_def)

text \<open>
  C8: the output is the blocks joined by two newline characters: the section blocks of
  the selected keys in their order, then the date and time block, then the guardrails
  block. No section block is blank; a selected key whose text is blank leaves the
  blocks as they are without it, so it adds no separator; and between \<open>n\<close> blocks there
  are exactly \<open>n - 1\<close> separators, as the length of the output shows.
\<close>

theorem C8_blocks_joined:
  "fst (get_system_prompt self stage dt g inc exc) =
     str_join [nl, nl]
       (section_blocks (prompt_sections self) (sections_to_include stage inc exc) @
        datetime_blocks dt @ guardrails_blocks g) \<and>
   (\<forall>b \<in> set (section_blocks (prompt_sections self) (sections_to_include stage inc exc)).
      str_strip b \<noteq> []) \<and>
   (prompt_sections self k = Some c \<and> str_strip c = [] \<longrightarrow>
      section_blocks (prompt_sections self) (sections_to_include stage inc exc) =
      section_blocks (prompt_sections self) (removeAll k (sections_to_include stage inc exc))) \<and>
   length (fst (get_system_prompt self stage dt g inc exc)) =
     sum_list (map length (fst (build_prompt_parts self stage dt g inc exc))) +
     2 * (length (fst (build_prompt_parts self stage dt g inc exc)) - 1)"
proof (intro conjI ballI impI)
  show "fst (get_system_prompt self stage dt g inc exc) =
     str_join [nl, nl]
       (section_blocks (prompt_sections self) (sections_to_include stage inc exc) @
        datetime_blocks dt @ guardrails_blocks g)"
    by (simp add: get_system_prompt_fst build_prompt_parts_eq)
next
  fix b
  assume "b \<in> set (section_blocks (prompt_sections self) (sections_to_include stage inc exc))"
  then show "str_strip b \<noteq> []"
    by (rule section_blocks_not_blank)
next
  assume "prompt_sections self k = Some c \<and> str_strip c = []"
  then show "section_blocks (prompt_sections self) (sections_to_include stage inc exc) =
      section_blocks (prompt_sections self) (removeAll k (sections_to_include stage inc exc))"
    by (simp add: section_blocks_blank)
next
  show "length (fst (get_system_prompt self stage dt g inc exc)) =
     sum_list (map length (fst (build_prompt_parts self stage dt g inc exc))) +
     2 * (length (fst (build_prompt_parts self stage dt g inc exc)) - 1)"
    by (simp add: get_system_prompt_fst str_join_length)
qed

theorem C8_blocks_joined_witness:
  "fst (get_system_prompt sample_manager ''closing'' None ''G'' None None) =
     ''I'' @ [nl, nl] @ ''L'' @ [nl, nl] @ ''C'' @ [nl, nl] @ ''G'' \<and>
   prompt_sections sample_manager ''tone_style'' = Some '' '' \<and>
   str_strip '' '' = [] \<and>
   length (fst (get_system_prompt sample_manager ''closing'' None ''G'' None None)) = 10"
  using C8_blocks_joined [where self = sample_manager and stage = "''closing''"
      and dt = None and g = "''G''" and inc = None and exc = None
      and k = "''tone_style''" and c = "'' ''"]
  by (simp add: build_prompt_parts_eq sections_to_include_default
        stage_sections_def section_blocks_Nil section_blocks_Cons kept_text_def
        sample_manager_def datetime_blocks_def guardrails_blocks_def str_strip_def
        isspace_def)

text \<open>
  C9: the compact prompt is the join, by two newline characters, of the texts of
  \<open>core_identity\<close>, \<open>language_rules\<close> and \<open>mid_conversation\<close> in that order, a blank or
  missing one passed over; it is the same for every \<open>context\<close>, and it is what
  \<open>get_system_prompt\<close> returns, at any stage, for these three keys as \<open>include_sections\<close>.
\<close>

theorem C9_compact_prompt:
  "get_compact_prompt self ctx =
     str_join [nl, nl]
       (section_blocks (prompt_sections self)
          [''core_identity'', ''language_rules'', ''mid_conversation'']) \<and>
   get_compact_prompt self ctx = get_compact_prompt self ctx' \<and>
   get_compact_prompt self ctx =
     fst (get_system_prompt self stage None [] (Some compact_sections) None)"
  by (simp add: get_compact_prompt_def collect_compact_eq compact_sections_def
        get_system_prompt_fst build_prompt_parts_eq sections_to_include_override
        datetime_blocks_def guardrails_blocks_def)

theorem C9_compact_prompt_witness:
  "get_compact_prompt sample_manager None = ''I'' @ [nl, nl] @ ''L'' @ [nl, nl] @ ''M'' \<and>
   get_compact_prompt sample_manager None =
     get_compact_prompt sample_manager (Some [(''turn'', ''7'')])"
  using C9_compact_prompt [where self = sample_manager and ctx = None
      and ctx' = "Some [(''turn'', ''7'')]" and stage = "''active''"]
  by (simp add: get_compact_prompt_def collect_compact_eq compact_sections_def
        section_blocks_Nil section_blocks_Cons kept_text_def
        sample_manager_def str_strip_def isspace_def)












end
